theory Spec2Isabelle
  imports Main "HOL-Library.Word" "HOL-Library.Signed_Division"
begin

unbundle bit_operations_syntax

section \<open>Session and system variables of package variable (varsutil.go)\<close>

text \<open>
  The development embeds \<^verbatim>\<open>sessionctx/variable/varsutil.go\<close>. Go functions that return
  \<^verbatim>\<open>(value, error)\<close> return a pair whose second component is \<open>None\<close> for \<^verbatim>\<open>nil\<close>;
  functions that mutate \<^verbatim>\<open>*SessionVars\<close> return the session after the call as well.
  \<^verbatim>\<open>errors.Trace\<close> only annotates an error with a stack position and is the identity here.
\<close>

subsection \<open>Errors\<close>

text \<open>
  One constructor per error class of the package; the argument list is what
  \<^verbatim>\<open>GenByArgs\<close> received (empty when the class itself is returned). \<open>ErrOther\<close> stands for
  an error made outside the package (a datum conversion, the accessor of the global store,
  the JSON encoder).
\<close>

datatype error =
    UnknownSystemVar "string list"
  | ErrIncorrectScope "string list"
  | ErrWrongTypeForVar "string list"
  | ErrWrongValueForVar "string list"
  | ErrReadOnly "string list"
  | ErrTruncatedWrongValue "string list"
  | ErrOther string

subsection \<open>Process-wide state\<close>

text \<open>
  \<open>ddlReorgWorkerCounter\<close> (an \<^verbatim>\<open>int32\<close>) and \<open>ProcessGeneralLog\<close> (a \<^verbatim>\<open>uint32\<close>) are the
  package's atomic cells. \<open>GlobalConfigJSON\<close> is what
  \<^verbatim>\<open>json.MarshalIndent(config.GetGlobalConfig(), "", "\t")\<close> returns.
\<close>

record Process =
  ddlReorgWorkerCounter :: "32 word"
  ProcessGeneralLog :: "32 word"
  GlobalConfigJSON :: "string \<times> error option"

text \<open>
  The constant \<^verbatim>\<open>maxDDLReorgWorkerCount\<close> is declared outside varsutil.go; it is the first
  argument. The comparison is the signed one of \<^verbatim>\<open>int32\<close>.
\<close>

definition SetDDLReorgWorkerCounter :: "32 word \<Rightarrow> 32 word \<Rightarrow> Process \<Rightarrow> Process" where
  "SetDDLReorgWorkerCounter maxDDLReorgWorkerCount cnt p =
     (let cnt = (if maxDDLReorgWorkerCount <s cnt then maxDDLReorgWorkerCount else cnt)
      in p\<lparr>ddlReorgWorkerCounter := cnt\<rparr>)"

definition GetDDLReorgWorkerCounter :: "Process \<Rightarrow> 32 word" where
  "GetDDLReorgWorkerCounter p = ddlReorgWorkerCounter p"

subsection \<open>Strings and numbers of the Go library\<close>

text \<open>
  A Go string is a sequence of bytes, here a \<open>string\<close> (\<open>char\<close> is a byte).
  \<^verbatim>\<open>strings.ToLower\<close> on the ASCII letters: variable names are ASCII identifiers, and a
  byte outside \<open>A..Z\<close> is kept (Go also lowers the letters beyond ASCII). The theorems
  below use \<open>ToLower name\<close> as the key of the lookup and nothing else of it.
\<close>

definition toLowerASCII :: "char \<Rightarrow> char" where
  "toLowerASCII c =
     (if 65 \<le> (of_char c :: nat) \<and> (of_char c :: nat) \<le> 90
      then char_of ((of_char c :: nat) + 32) else c)"

definition toUpperASCII :: "char \<Rightarrow> char" where
  "toUpperASCII c =
     (if 97 \<le> (of_char c :: nat) \<and> (of_char c :: nat) \<le> 122
      then char_of ((of_char c :: nat) - 32) else c)"

definition ToLower :: "string \<Rightarrow> string" where
  "ToLower s = map toLowerASCII s"

text \<open>
  \<^verbatim>\<open>strings.EqualFold(s, t)\<close> for a second argument made of ASCII letters and
  underscores, which is every call of the file. Under Unicode simple case folding an ASCII
  letter is equal to its other case, and two letters have a third form: \<open>K\<close> folds with
  the Kelvin sign U+212A (bytes E2 84 AA) and \<open>S\<close> with the long s U+017F (bytes C5 BF).
  Any other rune of \<open>s\<close>, and any invalid byte, is equal to no ASCII character.
\<close>

fun EqualFold :: "string \<Rightarrow> string \<Rightarrow> bool" where
  "EqualFold [] [] = True"
| "EqualFold (a # s) [] = False"
| "EqualFold s (c # t) =
     (if toUpperASCII c = CHR ''K'' \<and> take 3 s = [CHR 0xE2, CHR 0x84, CHR 0xAA]
        then EqualFold (drop 3 s) t
      else if toUpperASCII c = CHR ''S'' \<and> take 2 s = [CHR 0xC5, CHR 0xBF]
        then EqualFold (drop 2 s) t
      else (case s of
              [] \<Rightarrow> False
            | a # s' \<Rightarrow> toUpperASCII a = toUpperASCII c \<and> EqualFold s' t))"

text \<open>
  \<^verbatim>\<open>strconv\<close>. The file calls \<^verbatim>\<open>ParseUint(s, 10, 64)\<close>, \<^verbatim>\<open>ParseInt(s, 10, 64)\<close> and
  \<^verbatim>\<open>Atoi(s)\<close>, and tests their error against \<^verbatim>\<open>nil\<close> only. The loop of \<^verbatim>\<open>ParseUint\<close>
  reads the bytes from the left: a byte that is not a decimal digit is a syntax error, and
  a digit that takes the number above \<open>2^64 - 1\<close> a range error (Go tests
  \<^verbatim>\<open>n >= cutoff\<close> and the wrap-around of \<^verbatim>\<open>n*10 + d\<close>, which together say that). The
  number is kept as a \<open>nat\<close> below \<open>2^64\<close> and returned as the \<^verbatim>\<open>uint64\<close>.
\<close>

datatype NumError = ErrSyntax | ErrRange

fun ParseUint_loop :: "nat \<Rightarrow> string \<Rightarrow> NumError + nat" where
  "ParseUint_loop n [] = Inr n"
| "ParseUint_loop n (c # s) =
     (if (of_char c :: nat) < 48 \<or> 57 < (of_char c :: nat) then Inl ErrSyntax
      else if 18446744073709551615 < n * 10 + ((of_char c :: nat) - 48) then Inl ErrRange
      else ParseUint_loop (n * 10 + ((of_char c :: nat) - 48)) s)"

definition ParseUint :: "string \<Rightarrow> NumError + 64 word" where
  "ParseUint s =
     (if s = [] then Inl ErrSyntax
      else (case ParseUint_loop 0 s of
              Inl err \<Rightarrow> Inl err
            | Inr n \<Rightarrow> Inr (word_of_nat n)))"

text \<open>
  \<^verbatim>\<open>ParseInt\<close>: one leading sign is taken off, the rest goes through \<^verbatim>\<open>ParseUint\<close>, and
  the magnitude \<open>un\<close> is tested against \<open>cutoff = 2^63\<close>. After a range error of
  \<^verbatim>\<open>ParseUint\<close> Go goes on with \<open>un = 2^64 - 1\<close>, which fails the test with either sign.
  The result is the \<^verbatim>\<open>int64\<close> with the bits of \<open>un\<close>, negated (wrapping) under a minus.
\<close>

definition ParseInt :: "string \<Rightarrow> NumError + 64 word" where
  "ParseInt s0 =
     (if s0 = [] then Inl ErrSyntax
      else
        let neg = (hd s0 = CHR ''-'');
            s = (if hd s0 = CHR ''+'' \<or> hd s0 = CHR ''-'' then tl s0 else s0)
        in (case ParseUint s of
              Inl ErrSyntax \<Rightarrow> Inl ErrSyntax
            | Inl ErrRange \<Rightarrow> Inl ErrRange
            | Inr un \<Rightarrow>
                if \<not> neg \<and> (9223372036854775808 :: 64 word) \<le> un then Inl ErrRange
                else if neg \<and> (9223372036854775808 :: 64 word) < un then Inl ErrRange
                else Inr (if neg then - un else un)))"

text \<open>
  \<^verbatim>\<open>Atoi(s)\<close> is \<^verbatim>\<open>ParseInt(s, 10, 0)\<close> converted to \<^verbatim>\<open>int\<close>, with a shortcut for short
  strings that gives the same result; \<^verbatim>\<open>int\<close> has 64 bits on the platforms the server
  is built for.
\<close>

definition Atoi :: "string \<Rightarrow> NumError + 64 word" where
  "Atoi s = ParseInt s"

text \<open>\<^verbatim>\<open>fmt.Sprintf("%d", n)\<close> for an unsigned \<open>n\<close>: its decimal digits.\<close>

function FormatUint :: "nat \<Rightarrow> string" where
  "FormatUint n =
     (if n < 10 then [char_of (48 + n)]
      else FormatUint (n div 10) @ [char_of (48 + n mod 10)])"
  by pat_completeness auto
termination
  by (relation "measure id") auto

subsection \<open>The catalog of system variables\<close>

text \<open>
  Modelled from the spec: the type \<^verbatim>\<open>ScopeFlag\<close> and its constants are declared outside
  varsutil.go. The spec names the scopes none (an immutable constant), global and session,
  composed as bit flags, a variable of both scopes carrying both bits; the file tests
  \<^verbatim>\<open>Scope&ScopeGlobal == 0\<close> and \<^verbatim>\<open>Scope == ScopeNone\<close>.
\<close>

type_synonym ScopeFlag = "8 word"

definition ScopeNone :: ScopeFlag where "ScopeNone = 0"
definition ScopeGlobal :: ScopeFlag where "ScopeGlobal = push_bit 0 1"
definition ScopeSession :: ScopeFlag where "ScopeSession = push_bit 1 1"

record SysVar =
  Scope :: ScopeFlag
  Name :: string
  Value :: string

text \<open>
  \<^verbatim>\<open>SysVars\<close>, a Go map from the lower-case name to a descriptor, is filled outside
  varsutil.go: it is the first argument of every function that reads it. A missing key is
  the \<^verbatim>\<open>nil\<close> descriptor.
\<close>

type_synonym Catalog = "string \<rightharpoonup> SysVar"

text \<open>
  Modelled from the spec: \<^verbatim>\<open>GetSysVar\<close> is declared outside varsutil.go. It is the
  lookup of the catalog, whose names are normalised to lower case before the lookup.
\<close>

definition GetSysVar :: "Catalog \<Rightarrow> string \<Rightarrow> SysVar option" where
  "GetSysVar SysVars name = SysVars (ToLower name)"

text \<open>
  Modelled from the spec: the names of the variables are string constants declared outside
  varsutil.go. Each is the name the SQL dialect gives the variable the spec describes; the
  cases of one \<^verbatim>\<open>switch\<close> are pairwise different, which is all the functions below use.
\<close>

definition DefaultWeekFormat :: string where "DefaultWeekFormat = ''default_week_format''"
definition DelayKeyWrite :: string where "DelayKeyWrite = ''delay_key_write''"
definition FlushTime :: string where "FlushTime = ''flush_time''"
definition GroupConcatMaxLen :: string where "GroupConcatMaxLen = ''group_concat_max_len''"
definition InteractiveTimeout :: string where "InteractiveTimeout = ''interactive_timeout''"
definition MaxConnections :: string where "MaxConnections = ''max_connections''"
definition MaxSortLength :: string where "MaxSortLength = ''max_sort_length''"
definition MaxSpRecursionDepth :: string where "MaxSpRecursionDepth = ''max_sp_recursion_depth''"
definition OldPasswords :: string where "OldPasswords = ''old_passwords''"
definition MaxUserConnections :: string where "MaxUserConnections = ''max_user_connections''"
definition SessionTrackGtids :: string where "SessionTrackGtids = ''session_track_gtids''"
definition TimeZone :: string where "TimeZone = ''time_zone''"
definition WarningCount :: string where "WarningCount = ''warning_count''"
definition ErrorCount :: string where "ErrorCount = ''error_count''"
definition GeneralLog :: string where "GeneralLog = ''general_log''"
definition AvoidTemporalUpgrade :: string where "AvoidTemporalUpgrade = ''avoid_temporal_upgrade''"
definition BigTables :: string where "BigTables = ''big_tables''"
definition CheckProxyUsers :: string where "CheckProxyUsers = ''check_proxy_users''"
definition CoreFile :: string where "CoreFile = ''core_file''"
definition EndMakersInJSON :: string where "EndMakersInJSON = ''end_markers_in_json''"
definition SQLLogBin :: string where "SQLLogBin = ''sql_log_bin''"
definition OfflineMode :: string where "OfflineMode = ''offline_mode''"
definition PseudoSlaveMode :: string where "PseudoSlaveMode = ''pseudo_slave_mode''"
definition LowPriorityUpdates :: string where "LowPriorityUpdates = ''low_priority_updates''"
definition SkipNameResolve :: string where "SkipNameResolve = ''skip_name_resolve''"
definition ForeignKeyChecks :: string where "ForeignKeyChecks = ''foreign_key_checks''"
definition SQLSafeUpdates :: string where "SQLSafeUpdates = ''sql_safe_updates''"
definition AutocommitVar :: string where "AutocommitVar = ''autocommit''"
definition TiDBImportingData :: string where "TiDBImportingData = ''tidb_import_data''"
definition TiDBSkipUTF8Check :: string where "TiDBSkipUTF8Check = ''tidb_skip_utf8_check''"
definition TiDBOptAggPushDown :: string where "TiDBOptAggPushDown = ''tidb_opt_agg_push_down''"
definition TiDBOptInSubqUnFolding :: string where "TiDBOptInSubqUnFolding = ''tidb_opt_insubquery_unfold''"
definition TiDBEnableTablePartition :: string where "TiDBEnableTablePartition = ''tidb_enable_table_partition''"
definition TiDBBatchInsert :: string where "TiDBBatchInsert = ''tidb_batch_insert''"
definition TiDBDisableTxnAutoRetry :: string where "TiDBDisableTxnAutoRetry = ''tidb_disable_txn_auto_retry''"
definition TiDBEnableStreaming :: string where "TiDBEnableStreaming = ''tidb_enable_streaming''"
definition TiDBBatchDelete :: string where "TiDBBatchDelete = ''tidb_batch_delete''"
definition TiDBIndexLookupConcurrency :: string where "TiDBIndexLookupConcurrency = ''tidb_index_lookup_concurrency''"
definition TiDBIndexLookupJoinConcurrency :: string where "TiDBIndexLookupJoinConcurrency = ''tidb_index_lookup_join_concurrency''"
definition TiDBIndexJoinBatchSize :: string where "TiDBIndexJoinBatchSize = ''tidb_index_join_batch_size''"
definition TiDBIndexLookupSize :: string where "TiDBIndexLookupSize = ''tidb_index_lookup_size''"
definition TiDBHashJoinConcurrency :: string where "TiDBHashJoinConcurrency = ''tidb_hash_join_concurrency''"
definition TiDBHashAggPartialConcurrency :: string where "TiDBHashAggPartialConcurrency = ''tidb_hashagg_partial_concurrency''"
definition TiDBHashAggFinalConcurrency :: string where "TiDBHashAggFinalConcurrency = ''tidb_hashagg_final_concurrency''"
definition TiDBDistSQLScanConcurrency :: string where "TiDBDistSQLScanConcurrency = ''tidb_distsql_scan_concurrency''"
definition TiDBIndexSerialScanConcurrency :: string where "TiDBIndexSerialScanConcurrency = ''tidb_index_serial_scan_concurrency''"
definition TiDBDDLReorgWorkerCount :: string where "TiDBDDLReorgWorkerCount = ''tidb_ddl_reorg_worker_cnt''"
definition TiDBBackoffLockFast :: string where "TiDBBackoffLockFast = ''tidb_backoff_lock_fast''"
definition TiDBMaxChunkSize :: string where "TiDBMaxChunkSize = ''tidb_max_chunk_size''"
definition TiDBDMLBatchSize :: string where "TiDBDMLBatchSize = ''tidb_dml_batch_size''"
definition TiDBOptimizerSelectivityLevel :: string where "TiDBOptimizerSelectivityLevel = ''tidb_optimizer_selectivity_level''"
definition TiDBGeneralLog :: string where "TiDBGeneralLog = ''tidb_general_log''"
definition TiDBProjectionConcurrency :: string where "TiDBProjectionConcurrency = ''tidb_projection_concurrency''"
definition TIDBMemQuotaQuery :: string where "TIDBMemQuotaQuery = ''tidb_mem_quota_query''"
definition TIDBMemQuotaHashJoin :: string where "TIDBMemQuotaHashJoin = ''tidb_mem_quota_hashjoin''"
definition TIDBMemQuotaMergeJoin :: string where "TIDBMemQuotaMergeJoin = ''tidb_mem_quota_mergejoin''"
definition TIDBMemQuotaSort :: string where "TIDBMemQuotaSort = ''tidb_mem_quota_sort''"
definition TIDBMemQuotaTopn :: string where "TIDBMemQuotaTopn = ''tidb_mem_quota_topn''"
definition TIDBMemQuotaIndexLookupReader :: string where "TIDBMemQuotaIndexLookupReader = ''tidb_mem_quota_indexlookupreader''"
definition TIDBMemQuotaIndexLookupJoin :: string where "TIDBMemQuotaIndexLookupJoin = ''tidb_mem_quota_indexlookupjoin''"
definition TIDBMemQuotaNestedLoopApply :: string where "TIDBMemQuotaNestedLoopApply = ''tidb_mem_quota_nestedloopapply''"
definition TiDBRetryLimit :: string where "TiDBRetryLimit = ''tidb_retry_limit''"
definition TiDBCurrentTS :: string where "TiDBCurrentTS = ''tidb_current_ts''"
definition TiDBConfig :: string where "TiDBConfig = ''tidb_config''"

subsection \<open>The session\<close>

text \<open>
  The types \<^verbatim>\<open>SessionVars\<close>, \<^verbatim>\<open>StatementContext\<close>, \<^verbatim>\<open>TransactionContext\<close> and
  \<^verbatim>\<open>types.Datum\<close> are declared outside varsutil.go; the records hold the fields the file
  reads and writes. \<open>systems\<close> is the session overlay. \<open>GlobalVarsAccessor\<close> is the method
  \<^verbatim>\<open>GetGlobalSysVar\<close> of the accessor, the only way the file reaches the global store. A
  datum is what the file observes of it: the results of \<^verbatim>\<open>IsNull()\<close> and \<^verbatim>\<open>ToString()\<close>.
\<close>

record StatementContext =
  warnings :: "error list"

record TransactionContext =
  StartTS :: "64 word"

record SessionVars =
  systems :: "string \<rightharpoonup> string"
  StmtCtx :: StatementContext
  TxnCtx :: TransactionContext
  SnapshotTS :: "64 word"
  GlobalVarsAccessor :: "string \<Rightarrow> string \<times> error option"

record Datum =
  IsNull :: bool
  ToString :: "string \<times> error option"

text \<open>
  Modelled from the spec: \<^verbatim>\<open>StatementContext.AppendWarning\<close> is declared outside
  varsutil.go. It appends the warning to the warning list of the session.
\<close>

definition AppendWarning :: "StatementContext \<Rightarrow> error \<Rightarrow> StatementContext" where
  "AppendWarning sc warn = sc\<lparr>warnings := warnings sc @ [warn]\<rparr>"

text \<open>
  Modelled from the spec: \<^verbatim>\<open>SessionVars.deleteSystemVar\<close> is declared outside varsutil.go.
  It deletes the entry of the session overlay for the name, with no validation and no
  effect on the global store.
\<close>

definition deleteSystemVar :: "SessionVars \<Rightarrow> string \<Rightarrow> error option \<times> SessionVars" where
  "deleteSystemVar s name = (None, s\<lparr>systems := (systems s)(name := None)\<rparr>)"

text \<open>
  Modelled from the spec: \<^verbatim>\<open>SessionVars.SetSystemVar\<close> is declared outside varsutil.go. It
  writes the validated value into the session overlay only.
\<close>

definition SetSystemVar :: "SessionVars \<Rightarrow> string \<Rightarrow> string \<Rightarrow> error option \<times> SessionVars" where
  "SetSystemVar s name val = (None, s\<lparr>systems := (systems s)(name \<mapsto> val)\<rparr>)"

subsection \<open>Reading a variable\<close>

definition GetSessionOnlySysVars ::
  "Catalog \<Rightarrow> Process \<Rightarrow> SessionVars \<Rightarrow> string \<Rightarrow> string \<times> bool \<times> error option" where
  "GetSessionOnlySysVars SysVars p s key =
     (case SysVars key of
        None \<Rightarrow> ('''', False, Some (UnknownSystemVar [key]))
      | Some sysVar \<Rightarrow>
          if Name sysVar = TiDBCurrentTS then
            (FormatUint (unat (StartTS (TxnCtx s))), True, None)
          else if Name sysVar = TiDBGeneralLog then
            (FormatUint (unat (ProcessGeneralLog p)), True, None)
          else if Name sysVar = TiDBConfig then
            (case GlobalConfigJSON p of
               (j, Some err) \<Rightarrow> ('''', False, Some err)
             | (j, None) \<Rightarrow> (j, True, None))
          else
            (case systems s key of
               Some sVal \<Rightarrow> (sVal, True, None)
             | None \<Rightarrow>
                 if Scope sysVar AND ScopeGlobal = 0 then (Value sysVar, True, None)
                 else ('''', False, None)))"

definition GetSessionSystemVar ::
  "Catalog \<Rightarrow> Process \<Rightarrow> SessionVars \<Rightarrow> string \<Rightarrow> (string \<times> error option) \<times> SessionVars" where
  "GetSessionSystemVar SysVars p s key0 =
     (let key = ToLower key0 in
      case GetSessionOnlySysVars SysVars p s key of
        (gVal, ok, err) \<Rightarrow>
          if err \<noteq> None \<or> ok then ((gVal, err), s)
          else
            (case GlobalVarsAccessor s key of
               (gVal, Some err) \<Rightarrow> (('''', Some err), s)
             | (gVal, None) \<Rightarrow> ((gVal, None), s\<lparr>systems := (systems s)(key \<mapsto> gVal)\<rparr>)))"

definition GetScopeNoneSystemVar :: "Catalog \<Rightarrow> string \<Rightarrow> string \<times> bool \<times> error option" where
  "GetScopeNoneSystemVar SysVars key =
     (case SysVars key of
        None \<Rightarrow> ('''', False, Some (UnknownSystemVar [key]))
      | Some sysVar \<Rightarrow>
          if Scope sysVar = ScopeNone then (Value sysVar, True, None)
          else ('''', False, None))"

definition GetGlobalSystemVar :: "Catalog \<Rightarrow> SessionVars \<Rightarrow> string \<Rightarrow> string \<times> error option" where
  "GetGlobalSystemVar SysVars s key0 =
     (let key = ToLower key0 in
      case GetScopeNoneSystemVar SysVars key of
        (gVal, ok, err) \<Rightarrow>
          if err \<noteq> None \<or> ok then (gVal, err)
          else
            (case GlobalVarsAccessor s key of
               (gVal, Some err) \<Rightarrow> ('''', Some err)
             | (gVal, None) \<Rightarrow> (gVal, None)))"

definition ValidateGetSystemVar :: "Catalog \<Rightarrow> string \<Rightarrow> bool \<Rightarrow> error option" where
  "ValidateGetSystemVar SysVars name isGlobal =
     (case SysVars name of
        None \<Rightarrow> Some (UnknownSystemVar [name])
      | Some sysVar \<Rightarrow>
          if Scope sysVar = ScopeGlobal \<or> Scope sysVar = ScopeNone then
            (if \<not> isGlobal then Some (ErrIncorrectScope [name, ''GLOBAL'']) else None)
          else if Scope sysVar = ScopeSession then
            (if isGlobal then Some (ErrIncorrectScope [name, ''SESSION'']) else None)
          else None)"

subsection \<open>Validating and writing a variable\<close>

text \<open>
  The statement \<^verbatim>\<open>vars.StmtCtx.AppendWarning(ErrTruncatedWrongValue.GenByArgs(name, value))\<close>
  of the clamping branches.
\<close>

definition warnTruncated :: "SessionVars \<Rightarrow> string \<Rightarrow> string \<Rightarrow> SessionVars" where
  "warnTruncated vars name value =
     vars\<lparr>StmtCtx := AppendWarning (StmtCtx vars) (ErrTruncatedWrongValue [name, value])\<rparr>"

text \<open>
  The cases of the \<^verbatim>\<open>switch\<close> in the order of the source. A case that ends without
  \<^verbatim>\<open>return\<close> leaves the \<^verbatim>\<open>switch\<close> and reaches the final \<^verbatim>\<open>return value, nil\<close>.
  \<^verbatim>\<open>int\<close> and \<^verbatim>\<open>int64\<close> values are compared signed (\<open><s\<close>), \<^verbatim>\<open>uint64\<close> values unsigned.
\<close>

definition ValidateSetSystemVar ::
  "Catalog \<Rightarrow> SessionVars \<Rightarrow> string \<Rightarrow> string \<Rightarrow> (string \<times> error option) \<times> SessionVars" where
  "ValidateSetSystemVar SysVars vars name value =
     (if EqualFold value ''DEFAULT'' then
        (case GetSysVar SysVars name of
           Some val \<Rightarrow> ((Value val, None), vars)
         | None \<Rightarrow> ((value, Some (UnknownSystemVar [name])), vars))
      else if name = DefaultWeekFormat then
        (case Atoi value of
           Inl err \<Rightarrow> ((value, Some (ErrWrongTypeForVar [name])), vars)
         | Inr val \<Rightarrow>
             if val <s 0 then ((''0'', None), warnTruncated vars name value)
             else if 7 <s val then ((''7'', None), warnTruncated vars name value)
             else ((value, None), vars))
      else if name = DelayKeyWrite then
        (if EqualFold value ''ON'' \<or> value = ''1'' then ((''ON'', None), vars)
         else if EqualFold value ''OFF'' \<or> value = ''0'' then ((''OFF'', None), vars)
         else if EqualFold value ''ALL'' \<or> value = ''2'' then ((''ALL'', None), vars)
         else ((value, Some (ErrWrongValueForVar [name, value])), vars))
      else if name = FlushTime then
        (case Atoi value of
           Inl err \<Rightarrow> ((value, Some (ErrWrongTypeForVar [name])), vars)
         | Inr val \<Rightarrow>
             if val <s 0 then ((''0'', None), warnTruncated vars name value)
             else ((value, None), vars))
      else if name = GroupConcatMaxLen then
        (case ParseUint value of
           Inl err \<Rightarrow> ((value, Some (ErrWrongTypeForVar [name])), vars)
         | Inr val \<Rightarrow>
             if val < 4 then ((''4'', None), warnTruncated vars name value)
             else if 18446744073709551615 < val then
               ((''18446744073709551615'', None), warnTruncated vars name value)
             else ((value, None), vars))
      else if name = InteractiveTimeout then
        (case Atoi value of
           Inl err \<Rightarrow> ((value, Some (ErrWrongTypeForVar [name])), vars)
         | Inr val \<Rightarrow>
             if val <s 1 then ((''1'', None), warnTruncated vars name value)
             else ((value, None), vars))
      else if name = MaxConnections then
        (case Atoi value of
           Inl err \<Rightarrow> ((value, Some (ErrWrongTypeForVar [name])), vars)
         | Inr val \<Rightarrow>
             if val <s 1 then ((''1'', None), warnTruncated vars name value)
             else if 100000 <s val then ((''100000'', None), warnTruncated vars name value)
             else ((value, None), vars))
      else if name = MaxSortLength then
        (case ParseInt value of
           Inl err \<Rightarrow> ((value, Some (ErrWrongTypeForVar [name])), vars)
         | Inr val \<Rightarrow>
             if val <s 4 then ((''4'', None), warnTruncated vars name value)
             else if 8388608 <s val then ((''8388608'', None), warnTruncated vars name value)
             else ((value, None), vars))
      else if name = MaxSpRecursionDepth then
        (case ParseInt value of
           Inl err \<Rightarrow> ((value, Some (ErrWrongTypeForVar [name])), vars)
         | Inr val \<Rightarrow>
             if val <s 0 then ((''0'', None), warnTruncated vars name value)
             else if 255 <s val then ((''255'', None), warnTruncated vars name value)
             else ((value, None), vars))
      else if name = OldPasswords then
        (case Atoi value of
           Inl err \<Rightarrow> ((value, Some (ErrWrongTypeForVar [name])), vars)
         | Inr val \<Rightarrow>
             if val <s 0 then ((''0'', None), warnTruncated vars name value)
             else if 2 <s val then ((''2'', None), warnTruncated vars name value)
             else ((value, None), vars))
      else if name = MaxUserConnections then
        (case ParseUint value of
           Inl err \<Rightarrow> ((value, Some (ErrWrongTypeForVar [name])), vars)
         | Inr val \<Rightarrow>
             if val < 0 then ((''0'', None), warnTruncated vars name value)
             else if 4294967295 < val then ((''4294967295'', None), warnTruncated vars name value)
             else ((value, None), vars))
      else if name = SessionTrackGtids then
        (if EqualFold value ''OFF'' \<or> value = ''0'' then ((''OFF'', None), vars)
         else if EqualFold value ''OWN_GTID'' \<or> value = ''1'' then ((''OWN_GTID'', None), vars)
         else if EqualFold value ''ALL_GTIDS'' \<or> value = ''2'' then ((''ALL_GTIDS'', None), vars)
         else ((value, Some (ErrWrongValueForVar [name, value])), vars))
      else if name = TimeZone then
        (if EqualFold value ''SYSTEM'' then ((''SYSTEM'', None), vars)
         else ((value, None), vars))
      else if name = WarningCount \<or> name = ErrorCount then
        ((value, Some (ErrReadOnly [name])), vars)
      else if name \<in> set [GeneralLog, AvoidTemporalUpgrade, BigTables, CheckProxyUsers, CoreFile,
                            EndMakersInJSON, SQLLogBin, OfflineMode, PseudoSlaveMode,
                            LowPriorityUpdates, SkipNameResolve, ForeignKeyChecks, SQLSafeUpdates] then
        (if EqualFold value ''ON'' \<or> value = ''1'' then ((''1'', None), vars)
         else if EqualFold value ''OFF'' \<or> value = ''0'' then ((''0'', None), vars)
         else ((value, Some (ErrWrongValueForVar [name, value])), vars))
      else if name \<in> set [AutocommitVar, TiDBImportingData, TiDBSkipUTF8Check, TiDBOptAggPushDown,
                            TiDBOptInSubqUnFolding, TiDBEnableTablePartition, TiDBBatchInsert,
                            TiDBDisableTxnAutoRetry, TiDBEnableStreaming, TiDBBatchDelete] then
        (if EqualFold value ''ON'' \<or> value = ''1'' \<or> EqualFold value ''OFF'' \<or> value = ''0''
         then ((value, None), vars)
         else ((value, Some (ErrWrongValueForVar [name, value])), vars))
      else if name \<in> set [TiDBIndexLookupConcurrency, TiDBIndexLookupJoinConcurrency,
                            TiDBIndexJoinBatchSize, TiDBIndexLookupSize, TiDBHashJoinConcurrency,
                            TiDBHashAggPartialConcurrency, TiDBHashAggFinalConcurrency,
                            TiDBDistSQLScanConcurrency, TiDBIndexSerialScanConcurrency,
                            TiDBDDLReorgWorkerCount, TiDBBackoffLockFast, TiDBMaxChunkSize,
                            TiDBDMLBatchSize, TiDBOptimizerSelectivityLevel, TiDBGeneralLog] then
        (case Atoi value of
           Inl err \<Rightarrow> ((value, Some (ErrWrongTypeForVar [name])), vars)
         | Inr v \<Rightarrow>
             if v \<le>s 0 then ((value, Some (ErrWrongValueForVar [name, value])), vars)
             else ((value, None), vars))
      else if name \<in> set [TiDBProjectionConcurrency, TIDBMemQuotaQuery, TIDBMemQuotaHashJoin,
                            TIDBMemQuotaMergeJoin, TIDBMemQuotaSort, TIDBMemQuotaTopn,
                            TIDBMemQuotaIndexLookupReader, TIDBMemQuotaIndexLookupJoin,
                            TIDBMemQuotaNestedLoopApply, TiDBRetryLimit] then
        (case ParseInt value of
           Inl err \<Rightarrow> ((value, Some (ErrWrongValueForVar [name])), vars)
         | Inr v \<Rightarrow> ((value, None), vars))
      else ((value, None), vars))"

definition SetSessionSystemVar ::
  "Catalog \<Rightarrow> SessionVars \<Rightarrow> string \<Rightarrow> Datum \<Rightarrow> error option \<times> SessionVars" where
  "SetSessionSystemVar SysVars vars name0 value =
     (let name = ToLower name0 in
      case SysVars name of
        None \<Rightarrow> (Some (UnknownSystemVar []), vars)
      | Some sysVar \<Rightarrow>
          if IsNull value then deleteSystemVar vars name
          else
            (case ToString value of
               (sVal, Some err) \<Rightarrow> (Some err, vars)
             | (sVal, None) \<Rightarrow>
                 (case ValidateSetSystemVar SysVars vars name sVal of
                    ((sVal', Some err), vars') \<Rightarrow> (Some err, vars')
                  | ((sVal', None), vars') \<Rightarrow> SetSystemVar vars' name sVal')))"

text \<open>\<^verbatim>\<open>TiDBOptOn\<close>, \<^verbatim>\<open>tidbOptPositiveInt32\<close> and \<^verbatim>\<open>tidbOptInt64\<close>.\<close>

definition TiDBOptOn :: "string \<Rightarrow> bool" where
  "TiDBOptOn opt = (EqualFold opt ''ON'' \<or> opt = ''1'')"

definition tidbOptPositiveInt32 :: "string \<Rightarrow> 64 word \<Rightarrow> 64 word" where
  "tidbOptPositiveInt32 opt defaultVal =
     (case Atoi opt of
        Inl err \<Rightarrow> defaultVal
      | Inr val \<Rightarrow> if val \<le>s 0 then defaultVal else val)"

definition tidbOptInt64 :: "string \<Rightarrow> 64 word \<Rightarrow> 64 word" where
  "tidbOptInt64 opt defaultVal =
     (case ParseInt opt of Inl err \<Rightarrow> defaultVal | Inr val \<Rightarrow> val)"

subsection \<open>Timestamps\<close>

text \<open>
  A \<^verbatim>\<open>time.Time\<close> enters \<open>GoTimeToTS\<close> through \<^verbatim>\<open>t.UnixNano()\<close> only, an \<^verbatim>\<open>int64\<close>: the
  nanoseconds since the Unix epoch, negative before 1970. The argument of the model is that
  number. \<^verbatim>\<open>time.Millisecond\<close> is \<open>1000000\<close> nanoseconds. Go's \<^verbatim>\<open>/\<close> on \<^verbatim>\<open>int64\<close>
  truncates towards zero, \<^verbatim>\<open><<\<close> shifts the 64 bits, and the conversion to \<^verbatim>\<open>uint64\<close>
  keeps them.
\<close>

definition epochShiftBits :: nat where "epochShiftBits = 18"

definition Millisecond :: "64 word" where "Millisecond = 1000000"

definition int64_div :: "64 word \<Rightarrow> 64 word \<Rightarrow> 64 word" where
  "int64_div a b = word_of_int (sint a sdiv sint b)"

definition GoTimeToTS :: "64 word \<Rightarrow> 64 word" where
  "GoTimeToTS unixNano = push_bit epochShiftBits (int64_div unixNano Millisecond)"

subsection \<open>A sample catalog and session\<close>

text \<open>
  A few descriptors with the scopes and defaults the server ships, a session whose
  overlay holds two entries, a global store that holds \<open>autocommit\<close> only (its accessor
  answers \<open>UnknownSystemVar\<close> for any other name), and a process state. The general
  theorems below are instantiated on them.
\<close>

definition exampleSysVars :: Catalog where
  "exampleSysVars = map_of
     [(DefaultWeekFormat,
         \<lparr>Scope = ScopeGlobal OR ScopeSession, Name = DefaultWeekFormat, Value = ''0''\<rparr>),
      (DelayKeyWrite, \<lparr>Scope = ScopeGlobal, Name = DelayKeyWrite, Value = ''ON''\<rparr>),
      (GroupConcatMaxLen,
         \<lparr>Scope = ScopeGlobal OR ScopeSession, Name = GroupConcatMaxLen, Value = ''1024''\<rparr>),
      (MaxConnections, \<lparr>Scope = ScopeGlobal, Name = MaxConnections, Value = ''151''\<rparr>),
      (WarningCount, \<lparr>Scope = ScopeSession, Name = WarningCount, Value = ''0''\<rparr>),
      (ErrorCount, \<lparr>Scope = ScopeSession, Name = ErrorCount, Value = ''0''\<rparr>),
      (AutocommitVar,
         \<lparr>Scope = ScopeGlobal OR ScopeSession, Name = AutocommitVar, Value = ''1''\<rparr>),
      (TiDBCurrentTS, \<lparr>Scope = ScopeSession, Name = TiDBCurrentTS, Value = ''0''\<rparr>),
      (''hostname'', \<lparr>Scope = ScopeNone, Name = ''hostname'', Value = ''localhost''\<rparr>)]"

definition exampleAccessor :: "string \<Rightarrow> string \<times> error option" where
  "exampleAccessor key =
     (if key = AutocommitVar then (''1'', None) else ('''', Some (UnknownSystemVar [key])))"

definition exampleVars :: SessionVars where
  "exampleVars =
     \<lparr>systems = [AutocommitVar \<mapsto> ''0'', DefaultWeekFormat \<mapsto> ''3''],
      StmtCtx = \<lparr>warnings = []\<rparr>,
      TxnCtx = \<lparr>StartTS = 417\<rparr>,
      SnapshotTS = 0,
      GlobalVarsAccessor = exampleAccessor\<rparr>"

definition exampleProcess :: Process where
  "exampleProcess =
     \<lparr>ddlReorgWorkerCounter = 16, ProcessGeneralLog = 0, GlobalConfigJSON = (''{}'', None)\<rparr>"

definition nullDatum :: Datum where
  "nullDatum = \<lparr>IsNull = True, ToString = ('''', None)\<rparr>"

definition stringDatum :: "string \<Rightarrow> Datum" where
  "stringDatum s = \<lparr>IsNull = False, ToString = (s, None)\<rparr>"

section \<open>Properties\<close>

lemmas var_names =
  DefaultWeekFormat_def DelayKeyWrite_def FlushTime_def GroupConcatMaxLen_def
  InteractiveTimeout_def MaxConnections_def MaxSortLength_def MaxSpRecursionDepth_def
  OldPasswords_def MaxUserConnections_def SessionTrackGtids_def TimeZone_def
  WarningCount_def ErrorCount_def GeneralLog_def AvoidTemporalUpgrade_def
  BigTables_def CheckProxyUsers_def CoreFile_def EndMakersInJSON_def
  SQLLogBin_def OfflineMode_def PseudoSlaveMode_def LowPriorityUpdates_def
  SkipNameResolve_def ForeignKeyChecks_def SQLSafeUpdates_def AutocommitVar_def
  TiDBImportingData_def TiDBSkipUTF8Check_def TiDBOptAggPushDown_def TiDBOptInSubqUnFolding_def
  TiDBEnableTablePartition_def TiDBBatchInsert_def TiDBDisableTxnAutoRetry_def TiDBEnableStreaming_def
  TiDBBatchDelete_def TiDBIndexLookupConcurrency_def TiDBIndexLookupJoinConcurrency_def TiDBIndexJoinBatchSize_def
  TiDBIndexLookupSize_def TiDBHashJoinConcurrency_def TiDBHashAggPartialConcurrency_def TiDBHashAggFinalConcurrency_def
  TiDBDistSQLScanConcurrency_def TiDBIndexSerialScanConcurrency_def TiDBDDLReorgWorkerCount_def TiDBBackoffLockFast_def
  TiDBMaxChunkSize_def TiDBDMLBatchSize_def TiDBOptimizerSelectivityLevel_def TiDBGeneralLog_def
  TiDBProjectionConcurrency_def TIDBMemQuotaQuery_def TIDBMemQuotaHashJoin_def TIDBMemQuotaMergeJoin_def
  TIDBMemQuotaSort_def TIDBMemQuotaTopn_def TIDBMemQuotaIndexLookupReader_def TIDBMemQuotaIndexLookupJoin_def
  TIDBMemQuotaNestedLoopApply_def TiDBRetryLimit_def TiDBCurrentTS_def TiDBConfig_def

subsection \<open>The DDL reorg worker counter\<close>

text \<open>
  Claim C10. For every \<^verbatim>\<open>int32\<close> input \<open>cnt\<close>, right after
  \<open>SetDDLReorgWorkerCounter cnt\<close> the value \<open>GetDDLReorgWorkerCounter\<close> returns is the
  signed minimum of \<open>cnt\<close> and \<open>maxDDLReorgWorkerCount\<close>: an input above the maximum is
  capped to it, every other input is stored as it is (so, the maximum not being negative,
  zero and every negative input: there is no lower bound), and nothing else of the
  process state changes.
\<close>

theorem SetDDLReorgWorkerCounter_min:
  "sint (GetDDLReorgWorkerCounter (SetDDLReorgWorkerCounter m cnt p)) = min (sint cnt) (sint m)
   \<and> (sint m < sint cnt \<longrightarrow> GetDDLReorgWorkerCounter (SetDDLReorgWorkerCounter m cnt p) = m)
   \<and> (sint cnt \<le> sint m \<longrightarrow> GetDDLReorgWorkerCounter (SetDDLReorgWorkerCounter m cnt p) = cnt)
   \<and> (0 \<le> sint m \<and> sint cnt \<le> 0 \<longrightarrow>
        GetDDLReorgWorkerCounter (SetDDLReorgWorkerCounter m cnt p) = cnt)
   \<and> ProcessGeneralLog (SetDDLReorgWorkerCounter m cnt p) = ProcessGeneralLog p
   \<and> GlobalConfigJSON (SetDDLReorgWorkerCounter m cnt p) = GlobalConfigJSON p"
  by (simp add: SetDDLReorgWorkerCounter_def GetDDLReorgWorkerCounter_def
      word_sless_alt min_def not_less)

theorem SetDDLReorgWorkerCounter_min_witness:
  "sint (128 :: 32 word) < sint (1000 :: 32 word)
   \<and> GetDDLReorgWorkerCounter (SetDDLReorgWorkerCounter 128 1000 exampleProcess) = 128
   \<and> sint (16 :: 32 word) \<le> sint (128 :: 32 word)
   \<and> GetDDLReorgWorkerCounter (SetDDLReorgWorkerCounter 128 16 exampleProcess) = 16
   \<and> 0 \<le> sint (128 :: 32 word) \<and> sint (- 3 :: 32 word) \<le> 0
   \<and> GetDDLReorgWorkerCounter (SetDDLReorgWorkerCounter 128 (- 3) exampleProcess) = - 3
   \<and> sint (0 :: 32 word) \<le> 0
   \<and> GetDDLReorgWorkerCounter (SetDDLReorgWorkerCounter 128 0 exampleProcess) = 0"
  using SetDDLReorgWorkerCounter_min [of 128 1000 exampleProcess]
    SetDDLReorgWorkerCounter_min [of 128 16 exampleProcess]
    SetDDLReorgWorkerCounter_min [of 128 "- 3" exampleProcess]
    SetDDLReorgWorkerCounter_min [of 128 0 exampleProcess]
  by simp

subsection \<open>Case folding\<close>

declare EqualFold.simps [simp del]

lemma toUpperASCII_fix:
  "\<not> (97 \<le> (of_char c :: nat) \<and> (of_char c :: nat) \<le> 122) \<Longrightarrow> toUpperASCII c = c"
  by (auto simp add: toUpperASCII_def)

text \<open>
  Against a word without \<open>K\<close> and \<open>S\<close>, \<open>EqualFold\<close> holds of exactly the strings that
  differ from the word in the case of ASCII letters.
\<close>

lemma EqualFold_ascii:
  "CHR ''K'' \<notin> set (map toUpperASCII t) \<Longrightarrow> CHR ''S'' \<notin> set (map toUpperASCII t) \<Longrightarrow>
   EqualFold s t = (map toUpperASCII s = map toUpperASCII t)"
proof (induction t arbitrary: s)
  case Nil
  then show ?case by (cases s) (simp_all add: EqualFold.simps)
next
  case (Cons c t)
  then show ?case by (cases s) (auto simp add: EqualFold.simps)
qed

lemma EqualFold_DEFAULT: "EqualFold s ''DEFAULT'' = (map toUpperASCII s = ''DEFAULT'')"
  by (subst EqualFold_ascii) (simp_all add: toUpperASCII_fix)

lemma EqualFold_ON: "EqualFold s ''ON'' = (map toUpperASCII s = ''ON'')"
  by (subst EqualFold_ascii) (simp_all add: toUpperASCII_fix)

lemma EqualFold_OFF: "EqualFold s ''OFF'' = (map toUpperASCII s = ''OFF'')"
  by (subst EqualFold_ascii) (simp_all add: toUpperASCII_fix)

lemma EqualFold_ALL: "EqualFold s ''ALL'' = (map toUpperASCII s = ''ALL'')"
  by (subst EqualFold_ascii) (simp_all add: toUpperASCII_fix)

lemmas upper_eval = toUpperASCII_def char_of_eq_iff

lemmas lower_eval = ToLower_def toLowerASCII_def

subsection \<open>The literal DEFAULT\<close>

lemma ValidateSetSystemVar_DEFAULT:
  "EqualFold value ''DEFAULT'' \<Longrightarrow>
   ValidateSetSystemVar SysVars vars name value =
     (case SysVars (ToLower name) of
        Some val \<Rightarrow> ((Value val, None), vars)
      | None \<Rightarrow> ((value, Some (UnknownSystemVar [name])), vars))"
  unfolding ValidateSetSystemVar_def GetSysVar_def by (simp only: if_True)

text \<open>
  Claim C8. For every input value that is \<open>DEFAULT\<close> up to the case of its letters,
  \<open>ValidateSetSystemVar\<close> returns, for a name of the catalog, the default value of the
  catalog with no error, whatever the validation of that name would say, and leaves the
  session as it is; for a name that is not in the catalog it fails with \<open>UnknownSystemVar\<close>.
\<close>

theorem ValidateSetSystemVar_default_passthrough:
  assumes "map toUpperASCII value = ''DEFAULT''"
  shows "ValidateSetSystemVar SysVars vars name value =
     (case SysVars (ToLower name) of
        Some sysVar \<Rightarrow> ((Value sysVar, None), vars)
      | None \<Rightarrow> ((value, Some (UnknownSystemVar [name])), vars))"
  using assms by (simp only: ValidateSetSystemVar_DEFAULT EqualFold_DEFAULT)

theorem ValidateSetSystemVar_default_passthrough_witness:
  "map toUpperASCII ''dEfAuLt'' = ''DEFAULT''
   \<and> ValidateSetSystemVar exampleSysVars exampleVars WarningCount ''dEfAuLt''
       = ((''0'', None), exampleVars)
   \<and> ValidateSetSystemVar exampleSysVars exampleVars ''no_such_variable'' ''dEfAuLt''
       = ((''dEfAuLt'', Some (UnknownSystemVar [''no_such_variable''])), exampleVars)"
  using ValidateSetSystemVar_default_passthrough
          [of "''dEfAuLt''" exampleSysVars exampleVars WarningCount]
        ValidateSetSystemVar_default_passthrough
          [of "''dEfAuLt''" exampleSysVars exampleVars "''no_such_variable''"]
  by (simp add: upper_eval exampleSysVars_def var_names lower_eval)

subsection \<open>Read-only variables\<close>

lemma ValidateSetSystemVar_WarningCount:
  "\<not> EqualFold value ''DEFAULT'' \<Longrightarrow>
   ValidateSetSystemVar SysVars vars WarningCount value
     = ((value, Some (ErrReadOnly [WarningCount])), vars)"
  unfolding ValidateSetSystemVar_def by (simp add: var_names)

lemma ValidateSetSystemVar_ErrorCount:
  "\<not> EqualFold value ''DEFAULT'' \<Longrightarrow>
   ValidateSetSystemVar SysVars vars ErrorCount value
     = ((value, Some (ErrReadOnly [ErrorCount])), vars)"
  unfolding ValidateSetSystemVar_def by (simp add: var_names)

text \<open>
  Claim C3, as the source has it. The test for the literal \<open>DEFAULT\<close> comes before the
  \<^verbatim>\<open>switch\<close>: setting the warning count or the error count fails with \<open>ErrReadOnly\<close>
  for every value that is not \<open>DEFAULT\<close> in some case of its letters, and the session
  stays as it is. (For \<open>DEFAULT\<close> the default of the catalog is returned, see C8.)
\<close>

theorem ValidateSetSystemVar_read_only:
  assumes "map toUpperASCII value \<noteq> ''DEFAULT''"
    and "name = WarningCount \<or> name = ErrorCount"
  shows "ValidateSetSystemVar SysVars vars name value
           = ((value, Some (ErrReadOnly [name])), vars)"
  using assms
  by (auto simp add: ValidateSetSystemVar_WarningCount ValidateSetSystemVar_ErrorCount
      EqualFold_DEFAULT)

theorem ValidateSetSystemVar_read_only_witness:
  "map toUpperASCII ''5'' \<noteq> ''DEFAULT''
   \<and> ValidateSetSystemVar exampleSysVars exampleVars ErrorCount ''5''
       = ((''5'', Some (ErrReadOnly [ErrorCount])), exampleVars)"
  using ValidateSetSystemVar_read_only [of "''5''" ErrorCount exampleSysVars exampleVars]
  by (simp add: upper_eval)

text \<open>
  The claim as the spec words it (a \<open>ErrReadOnly\<close> for any value whatsoever) fails at
  the value \<open>DEFAULT\<close>: the error count of the sample catalog gets its default, and no
  error.
\<close>

theorem ValidateSetSystemVar_read_only_counterexample:
  "ValidateSetSystemVar exampleSysVars exampleVars ErrorCount ''DEFAULT''
     = ((''0'', None), exampleVars)"
  by (simp add: ValidateSetSystemVar_DEFAULT EqualFold_DEFAULT upper_eval exampleSysVars_def
      var_names lower_eval)

subsection \<open>The sample catalog and session, evaluated\<close>

declare FormatUint.simps [simp del]

lemma names_ne:
  "AutocommitVar \<noteq> TiDBCurrentTS" "AutocommitVar \<noteq> TiDBGeneralLog"
  "AutocommitVar \<noteq> TiDBConfig" "MaxConnections \<noteq> TiDBCurrentTS"
  "MaxConnections \<noteq> TiDBGeneralLog" "MaxConnections \<noteq> TiDBConfig"
  "DefaultWeekFormat \<noteq> AutocommitVar" "MaxConnections \<noteq> AutocommitVar"
  by (simp_all add: var_names)

lemma ex_lookup:
  "exampleSysVars DefaultWeekFormat
     = Some \<lparr>Scope = ScopeGlobal OR ScopeSession, Name = DefaultWeekFormat, Value = ''0''\<rparr>"
  "exampleSysVars DelayKeyWrite
     = Some \<lparr>Scope = ScopeGlobal, Name = DelayKeyWrite, Value = ''ON''\<rparr>"
  "exampleSysVars MaxConnections
     = Some \<lparr>Scope = ScopeGlobal, Name = MaxConnections, Value = ''151''\<rparr>"
  "exampleSysVars WarningCount
     = Some \<lparr>Scope = ScopeSession, Name = WarningCount, Value = ''0''\<rparr>"
  "exampleSysVars ErrorCount
     = Some \<lparr>Scope = ScopeSession, Name = ErrorCount, Value = ''0''\<rparr>"
  "exampleSysVars AutocommitVar
     = Some \<lparr>Scope = ScopeGlobal OR ScopeSession, Name = AutocommitVar, Value = ''1''\<rparr>"
  "exampleSysVars ''hostname''
     = Some \<lparr>Scope = ScopeNone, Name = ''hostname'', Value = ''localhost''\<rparr>"
  "exampleSysVars ''no_such_variable'' = None"
  by (simp_all add: exampleSysVars_def var_names)

lemma ToLower_eval:
  "ToLower ''AutoCommit'' = AutocommitVar"
  "ToLower ''Error_Count'' = ErrorCount"
  "ToLower MaxConnections = MaxConnections"
  "ToLower ErrorCount = ErrorCount"
  "ToLower DefaultWeekFormat = DefaultWeekFormat"
  "ToLower DelayKeyWrite = DelayKeyWrite"
  "ToLower ''no_such_variable'' = ''no_such_variable''"
  by (simp_all add: lower_eval char_of_eq_iff var_names)

lemma scope_bits:
  "((ScopeGlobal OR ScopeSession) AND ScopeGlobal = 0) = False"
  "(ScopeGlobal AND ScopeGlobal = 0) = False"
  "ScopeSession AND ScopeGlobal = 0"
  "ScopeNone AND ScopeGlobal = 0"
  by (simp_all add: ScopeGlobal_def ScopeSession_def ScopeNone_def)

lemma ex_vars:
  "GlobalVarsAccessor exampleVars = exampleAccessor"
  "StartTS (TxnCtx exampleVars) = 417"
  "systems exampleVars AutocommitVar = Some ''0''"
  by (simp_all add: exampleVars_def var_names)

lemma ex_acc:
  "exampleAccessor AutocommitVar = (''1'', None)"
  "exampleAccessor MaxConnections = ('''', Some (UnknownSystemVar [MaxConnections]))"
  by (simp_all add: exampleAccessor_def names_ne)

subsection \<open>Scope of an access\<close>

text \<open>
  Claim C7. For a name of the catalog whose scope is \<open>ScopeGlobal\<close> or \<open>ScopeNone\<close>,
  \<open>ValidateGetSystemVar\<close> fails for a statement that is not global with
  \<open>ErrIncorrectScope\<close> carrying the name and \<open>GLOBAL\<close>, and succeeds for a global one;
  for a name whose scope is \<open>ScopeSession\<close> a global statement fails with
  \<open>ErrIncorrectScope\<close> carrying the name and \<open>SESSION\<close>, and a statement that is not
  global succeeds; a name that is not in the catalog fails with \<open>UnknownSystemVar\<close>.
\<close>

theorem ValidateGetSystemVar_scope:
  "(SysVars name = None \<longrightarrow>
      ValidateGetSystemVar SysVars name isGlobal = Some (UnknownSystemVar [name]))
   \<and> (\<forall>sysVar. SysVars name = Some sysVar \<longrightarrow>
        (Scope sysVar = ScopeGlobal \<or> Scope sysVar = ScopeNone \<longrightarrow>
           ValidateGetSystemVar SysVars name False = Some (ErrIncorrectScope [name, ''GLOBAL''])
           \<and> ValidateGetSystemVar SysVars name True = None)
      \<and> (Scope sysVar = ScopeSession \<longrightarrow>
           ValidateGetSystemVar SysVars name True = Some (ErrIncorrectScope [name, ''SESSION''])
           \<and> ValidateGetSystemVar SysVars name False = None))"
  by (simp add: ValidateGetSystemVar_def ScopeGlobal_def ScopeNone_def ScopeSession_def)

theorem ValidateGetSystemVar_scope_witness:
  "exampleSysVars MaxConnections
     = Some \<lparr>Scope = ScopeGlobal, Name = MaxConnections, Value = ''151''\<rparr>
   \<and> ValidateGetSystemVar exampleSysVars MaxConnections False
       = Some (ErrIncorrectScope [MaxConnections, ''GLOBAL''])
   \<and> ValidateGetSystemVar exampleSysVars MaxConnections True = None
   \<and> exampleSysVars ''hostname''
       = Some \<lparr>Scope = ScopeNone, Name = ''hostname'', Value = ''localhost''\<rparr>
   \<and> ValidateGetSystemVar exampleSysVars ''hostname'' False
       = Some (ErrIncorrectScope [''hostname'', ''GLOBAL''])
   \<and> ValidateGetSystemVar exampleSysVars ''hostname'' True = None
   \<and> exampleSysVars WarningCount
       = Some \<lparr>Scope = ScopeSession, Name = WarningCount, Value = ''0''\<rparr>
   \<and> ValidateGetSystemVar exampleSysVars WarningCount True
       = Some (ErrIncorrectScope [WarningCount, ''SESSION''])
   \<and> ValidateGetSystemVar exampleSysVars WarningCount False = None
   \<and> exampleSysVars ''no_such_variable'' = None
   \<and> ValidateGetSystemVar exampleSysVars ''no_such_variable'' True
       = Some (UnknownSystemVar [''no_such_variable''])"
  using ValidateGetSystemVar_scope [of exampleSysVars MaxConnections]
    ValidateGetSystemVar_scope [of exampleSysVars "''hostname''"]
    ValidateGetSystemVar_scope [of exampleSysVars WarningCount]
    ValidateGetSystemVar_scope [of exampleSysVars "''no_such_variable''" True]
  by (simp add: ex_lookup)

subsection \<open>The delay-key-write variable\<close>

lemma ValidateSetSystemVar_DelayKeyWrite:
  "\<not> EqualFold value ''DEFAULT'' \<Longrightarrow>
   ValidateSetSystemVar SysVars vars DelayKeyWrite value =
     (if EqualFold value ''ON'' \<or> value = ''1'' then ((''ON'', None), vars)
      else if EqualFold value ''OFF'' \<or> value = ''0'' then ((''OFF'', None), vars)
      else if EqualFold value ''ALL'' \<or> value = ''2'' then ((''ALL'', None), vars)
      else ((value, Some (ErrWrongValueForVar [DelayKeyWrite, value])), vars))"
  unfolding ValidateSetSystemVar_def by (simp add: var_names)

text \<open>
  Claim C9, as the source has it. For the delay-key-write variable and a value that is
  not \<open>DEFAULT\<close> in some case of its letters, \<open>ValidateSetSystemVar\<close> maps any casing of
  \<open>ON\<close> and the digit \<open>1\<close> to \<open>ON\<close>, any casing of \<open>OFF\<close> and \<open>0\<close> to \<open>OFF\<close>, any
  casing of \<open>ALL\<close> and \<open>2\<close> to \<open>ALL\<close>, and fails on every other value with
  \<open>ErrWrongValueForVar\<close> carrying the name and the value; the session stays as it is.
\<close>

theorem ValidateSetSystemVar_delay_key_write:
  assumes "map toUpperASCII value \<noteq> ''DEFAULT''"
  shows "ValidateSetSystemVar SysVars vars DelayKeyWrite value =
     (if map toUpperASCII value = ''ON'' \<or> value = ''1'' then ((''ON'', None), vars)
      else if map toUpperASCII value = ''OFF'' \<or> value = ''0'' then ((''OFF'', None), vars)
      else if map toUpperASCII value = ''ALL'' \<or> value = ''2'' then ((''ALL'', None), vars)
      else ((value, Some (ErrWrongValueForVar [DelayKeyWrite, value])), vars))"
  using assms
  by (simp only: ValidateSetSystemVar_DelayKeyWrite EqualFold_DEFAULT EqualFold_ON
      EqualFold_OFF EqualFold_ALL not_False_eq_True)

theorem ValidateSetSystemVar_delay_key_write_witness:
  "map toUpperASCII ''aLl'' \<noteq> ''DEFAULT''
   \<and> ValidateSetSystemVar exampleSysVars exampleVars DelayKeyWrite ''aLl''
       = ((''ALL'', None), exampleVars)
   \<and> map toUpperASCII ''7'' \<noteq> ''DEFAULT''
   \<and> ValidateSetSystemVar exampleSysVars exampleVars DelayKeyWrite ''7''
       = ((''7'', Some (ErrWrongValueForVar [DelayKeyWrite, ''7''])), exampleVars)"
  using ValidateSetSystemVar_delay_key_write [of "''aLl''" exampleSysVars exampleVars]
    ValidateSetSystemVar_delay_key_write [of "''7''" exampleSysVars exampleVars]
  by (simp add: upper_eval)

text \<open>
  Without the exception the claim fails: the value \<open>DEFAULT\<close> is none of the six
  accepted forms, and it returns the default of the catalog with no error.
\<close>

theorem ValidateSetSystemVar_delay_key_write_counterexample:
  "ValidateSetSystemVar exampleSysVars exampleVars DelayKeyWrite ''DEFAULT''
     = ((''ON'', None), exampleVars)"
  by (simp add: ValidateSetSystemVar_DEFAULT EqualFold_DEFAULT upper_eval ToLower_eval
      ex_lookup)

subsection \<open>Numbers that do not parse\<close>

lemma toUpperASCII_D_code:
  "toUpperASCII d = CHR ''D'' \<Longrightarrow> (of_char d :: nat) = 68 \<or> (of_char d :: nat) = 100"
  by (auto simp add: toUpperASCII_def char_of_eq_iff take_bit_eq_mod split: if_splits)

lemma toUpperASCII_D: "toUpperASCII d = CHR ''D'' \<Longrightarrow> d = CHR ''D'' \<or> d = CHR ''d''"
proof -
  assume "toUpperASCII d = CHR ''D''"
  then have "(of_char d :: nat) = of_char CHR ''D'' \<or> (of_char d :: nat) = of_char CHR ''d''"
    using toUpperASCII_D_code by simp
  then show ?thesis by (simp only: of_char_eq_iff)
qed

lemma ParseUint_DEFAULT: "EqualFold value ''DEFAULT'' \<Longrightarrow> ParseUint value = Inl ErrSyntax"
  by (auto simp add: EqualFold_DEFAULT ParseUint_def dest!: toUpperASCII_D)

lemma ParseInt_DEFAULT: "EqualFold value ''DEFAULT'' \<Longrightarrow> ParseInt value = Inl ErrSyntax"
  by (auto simp add: EqualFold_DEFAULT ParseInt_def ParseUint_def dest!: toUpperASCII_D)

lemma Atoi_DEFAULT: "EqualFold value ''DEFAULT'' \<Longrightarrow> Atoi value = Inl ErrSyntax"
  by (simp add: Atoi_def ParseInt_DEFAULT)

lemma Atoi_eval:
  "Atoi ''-5'' = Inr (- 5)"
  "Atoi ''99'' = Inr 99"
  "Atoi ''abc'' = Inl ErrSyntax"
  "Atoi ''9223372036854775808'' = Inl ErrRange"
  by (simp_all add: Atoi_def ParseInt_def ParseUint_def)

subsection \<open>The default-week-format variable\<close>

lemma ValidateSetSystemVar_DefaultWeekFormat:
  "\<not> EqualFold value ''DEFAULT'' \<Longrightarrow>
   ValidateSetSystemVar SysVars vars DefaultWeekFormat value =
     (case Atoi value of
        Inl err \<Rightarrow> ((value, Some (ErrWrongTypeForVar [DefaultWeekFormat])), vars)
      | Inr val \<Rightarrow>
          if val <s 0 then ((''0'', None), warnTruncated vars DefaultWeekFormat value)
          else if 7 <s val then ((''7'', None), warnTruncated vars DefaultWeekFormat value)
          else ((value, None), vars))"
  unfolding ValidateSetSystemVar_def by (simp add: var_names)

text \<open>
  Claim C5, as the source has it. When the value is an integer string that
  \<^verbatim>\<open>strconv.Atoi\<close> accepts (an optional sign and decimal digits, within the 64-bit
  \<^verbatim>\<open>int\<close>), setting the default-week-format variable to a number below 0 returns \<open>0\<close>,
  to a number above 7 returns \<open>7\<close>, in both cases with no error and with exactly one
  \<open>ErrTruncatedWrongValue\<close> warning, carrying the name and the value, appended to the
  warnings of the session; nothing else of the session changes.
\<close>

theorem ValidateSetSystemVar_default_week_format_clamp:
  assumes "Atoi value = Inr val" and "val <s 0 \<or> 7 <s val"
  shows "ValidateSetSystemVar SysVars vars DefaultWeekFormat value =
     ((if val <s 0 then ''0'' else ''7'', None),
      vars\<lparr>StmtCtx := (StmtCtx vars)\<lparr>warnings :=
         warnings (StmtCtx vars) @ [ErrTruncatedWrongValue [DefaultWeekFormat, value]]\<rparr>\<rparr>)"
proof -
  from assms(1) have "\<not> EqualFold value ''DEFAULT''"
    using Atoi_DEFAULT [of "value"] by auto
  then show ?thesis
    using assms
    by (auto simp add: ValidateSetSystemVar_DefaultWeekFormat warnTruncated_def
        AppendWarning_def)
qed

theorem ValidateSetSystemVar_default_week_format_clamp_witness:
  "Atoi ''-5'' = Inr (- 5) \<and> (- 5 :: 64 word) <s 0
   \<and> ValidateSetSystemVar exampleSysVars exampleVars DefaultWeekFormat ''-5''
       = ((''0'', None),
          exampleVars\<lparr>StmtCtx :=
            \<lparr>warnings = [ErrTruncatedWrongValue [DefaultWeekFormat, ''-5'']]\<rparr>\<rparr>)
   \<and> Atoi ''99'' = Inr 99 \<and> (7 :: 64 word) <s 99
   \<and> ValidateSetSystemVar exampleSysVars exampleVars DefaultWeekFormat ''99''
       = ((''7'', None),
          exampleVars\<lparr>StmtCtx :=
            \<lparr>warnings = [ErrTruncatedWrongValue [DefaultWeekFormat, ''99'']]\<rparr>\<rparr>)"
  using ValidateSetSystemVar_default_week_format_clamp
          [of "''-5''" "- 5" exampleSysVars exampleVars]
        ValidateSetSystemVar_default_week_format_clamp
          [of "''99''" 99 exampleSysVars exampleVars]
  by (simp add: Atoi_eval exampleVars_def word_sless_alt)

text \<open>
  An integer string above 7 that does not fit the 64-bit \<^verbatim>\<open>int\<close> is not clamped:
  \<^verbatim>\<open>strconv.Atoi\<close> reports a range error for \<open>2^63\<close>, and the variable fails with
  \<open>ErrWrongTypeForVar\<close>, with no warning.
\<close>

theorem ValidateSetSystemVar_default_week_format_counterexample:
  "ValidateSetSystemVar exampleSysVars exampleVars DefaultWeekFormat ''9223372036854775808''
     = ((''9223372036854775808'', Some (ErrWrongTypeForVar [DefaultWeekFormat])), exampleVars)"
  by (simp add: ValidateSetSystemVar_DefaultWeekFormat EqualFold_DEFAULT Atoi_eval)

subsection \<open>The group-concat maximum length\<close>

lemma ValidateSetSystemVar_GroupConcatMaxLen:
  "\<not> EqualFold value ''DEFAULT'' \<Longrightarrow>
   ValidateSetSystemVar SysVars vars GroupConcatMaxLen value =
     (case ParseUint value of
        Inl err \<Rightarrow> ((value, Some (ErrWrongTypeForVar [GroupConcatMaxLen])), vars)
      | Inr val \<Rightarrow>
          if val < 4 then ((''4'', None), warnTruncated vars GroupConcatMaxLen value)
          else if 18446744073709551615 < val then
            ((''18446744073709551615'', None), warnTruncated vars GroupConcatMaxLen value)
          else ((value, None), vars))"
  unfolding ValidateSetSystemVar_def by (simp add: var_names)

text \<open>No \<^verbatim>\<open>uint64\<close> is above \<open>2^64 - 1\<close>: the second clamping branch is never taken.\<close>

lemma uint64_not_above_max: "\<not> (18446744073709551615 :: 64 word) < val"
proof -
  have "(18446744073709551615 :: 64 word) = - 1" by simp
  then show ?thesis by (simp only: word_order.extremum_strict not_False_eq_True)
qed

lemma ValidateSetSystemVar_GroupConcatMaxLen_cases:
  assumes "\<not> EqualFold value ''DEFAULT''"
  shows "ValidateSetSystemVar SysVars vars GroupConcatMaxLen value =
     (case ParseUint value of
        Inl err \<Rightarrow> ((value, Some (ErrWrongTypeForVar [GroupConcatMaxLen])), vars)
      | Inr val \<Rightarrow>
          if val < 4 then ((''4'', None), warnTruncated vars GroupConcatMaxLen value)
          else ((value, None), vars))"
  using assms
  by (simp add: ValidateSetSystemVar_GroupConcatMaxLen uint64_not_above_max split: sum.split)

text \<open>
  Claim C2 says that a number out of the range from 4 to \<open>2^64 - 1\<close> never fails and is
  clamped to the nearest bound. The code does not do that: a number above \<open>2^64 - 1\<close>
  is a range error of \<^verbatim>\<open>strconv.ParseUint\<close> and a negative number a syntax error, and
  both fail with \<open>ErrWrongTypeForVar\<close>, with no warning; only \<open>0\<close> to \<open>3\<close> are clamped
  (the lemma above). The theorem evaluates the code at \<open>2^64\<close> and at \<open>-1\<close>.
\<close>

theorem ValidateSetSystemVar_group_concat_max_len_out_of_range:
  "ValidateSetSystemVar SysVars vars GroupConcatMaxLen ''18446744073709551616''
     = ((''18446744073709551616'', Some (ErrWrongTypeForVar [GroupConcatMaxLen])), vars)
   \<and> ValidateSetSystemVar SysVars vars GroupConcatMaxLen ''-1''
     = ((''-1'', Some (ErrWrongTypeForVar [GroupConcatMaxLen])), vars)"
  by (simp add: ValidateSetSystemVar_GroupConcatMaxLen EqualFold_DEFAULT ParseUint_def)

subsection \<open>A failed write leaves the session as it was\<close>

text \<open>
  Every result of \<open>ValidateSetSystemVar\<close> either carries no error or comes with the
  session it was given: the branches that append a warning are the ones that succeed.
\<close>

lemma ValidateSetSystemVar_error_frame:
  "snd (fst (ValidateSetSystemVar SysVars vars name value)) = None
   \<or> snd (ValidateSetSystemVar SysVars vars name value) = vars"
proof -
  define ok :: "(string \<times> error option) \<times> SessionVars \<Rightarrow> bool"
    where "ok = (\<lambda>r. snd (fst r) = None \<or> snd r = vars)"
  have ok_if: "\<And>c a b. ok a \<Longrightarrow> ok b \<Longrightarrow> ok (if c then a else b)"
    by simp
  have ok_sum: "\<And>x f g. (\<And>e. ok (f e)) \<Longrightarrow> (\<And>v. ok (g v))
                  \<Longrightarrow> ok (case x of Inl e \<Rightarrow> f e | Inr v \<Rightarrow> g v)"
    by (simp split: sum.split)
  have ok_opt: "\<And>x a g. ok a \<Longrightarrow> (\<And>v. ok (g v))
                  \<Longrightarrow> ok (case x of None \<Rightarrow> a | Some v \<Rightarrow> g v)"
    by (simp split: option.split)
  have ok_same: "\<And>v e. ok ((v, e), vars)"
    by (simp add: ok_def)
  have ok_none: "\<And>v w. ok ((v, None), w)"
    by (simp add: ok_def)
  have "ok (ValidateSetSystemVar SysVars vars name value)"
    unfolding ValidateSetSystemVar_def
    by (intro ok_if ok_sum ok_opt ok_same ok_none)
  then show ?thesis by (simp add: ok_def)
qed

text \<open>
  Claim C1. For every name and every datum, when \<open>SetSessionSystemVar\<close> fails at the
  lookup of the catalog (\<open>UnknownSystemVar\<close>), at the conversion of the datum to a
  string (the error of the conversion), or in \<open>ValidateSetSystemVar\<close>
  (\<open>ErrWrongTypeForVar\<close>, \<open>ErrWrongValueForVar\<close>, \<open>ErrReadOnly\<close>), it returns that
  error and the session after the call is the session before it: the overlay \<open>systems\<close>
  has the same entries, the accessor of the global store was not touched, and no warning
  was added.
\<close>

theorem SetSessionSystemVar_error_keeps_session:
  "(SysVars (ToLower name) = None \<longrightarrow>
      SetSessionSystemVar SysVars vars name value = (Some (UnknownSystemVar []), vars))
   \<and> (SysVars (ToLower name) = Some sysVar \<and> \<not> IsNull value
        \<and> snd (ToString value) = Some err \<longrightarrow>
      SetSessionSystemVar SysVars vars name value = (Some err, vars))
   \<and> (SysVars (ToLower name) = Some sysVar \<and> \<not> IsNull value
        \<and> snd (ToString value) = None
        \<and> snd (fst (ValidateSetSystemVar SysVars vars (ToLower name) (fst (ToString value))))
            = Some err \<longrightarrow>
      SetSessionSystemVar SysVars vars name value = (Some err, vars))"
proof -
  let ?r = "ValidateSetSystemVar SysVars vars (ToLower name) (fst (ToString value))"
  have fr: "snd (fst ?r) = None \<or> snd ?r = vars"
    by (rule ValidateSetSystemVar_error_frame)
  have lookup: "SysVars (ToLower name) = None \<longrightarrow>
      SetSessionSystemVar SysVars vars name value = (Some (UnknownSystemVar []), vars)"
    by (simp add: SetSessionSystemVar_def)
  have conversion: "SysVars (ToLower name) = Some sysVar \<and> \<not> IsNull value
        \<and> snd (ToString value) = Some err \<longrightarrow>
      SetSessionSystemVar SysVars vars name value = (Some err, vars)"
    by (auto simp add: SetSessionSystemVar_def Let_def split: prod.splits)
  have validation: "SysVars (ToLower name) = Some sysVar \<and> \<not> IsNull value
        \<and> snd (ToString value) = None \<and> snd (fst ?r) = Some err \<longrightarrow>
      SetSessionSystemVar SysVars vars name value = (Some err, vars)"
    using fr by (auto simp add: SetSessionSystemVar_def Let_def split: prod.splits)
  from lookup conversion validation show ?thesis by blast
qed

text \<open>
  In the model, where the two methods of the session declared outside varsutil.go do not
  fail, these are all the errors: whenever the call returns an error the session is
  unchanged.
\<close>

lemma SetSessionSystemVar_any_error:
  assumes "fst (SetSessionSystemVar SysVars vars name value) = Some err"
  shows "snd (SetSessionSystemVar SysVars vars name value) = vars"
proof -
  let ?r = "ValidateSetSystemVar SysVars vars (ToLower name) (fst (ToString value))"
  have fr: "snd (fst ?r) = None \<or> snd ?r = vars"
    by (rule ValidateSetSystemVar_error_frame)
  show ?thesis
    using assms fr
    by (auto simp add: SetSessionSystemVar_def deleteSystemVar_def SetSystemVar_def Let_def
        split: option.splits if_splits prod.splits)
qed

lemma ValidateSetSystemVar_errors_eval:
  "snd (fst (ValidateSetSystemVar exampleSysVars exampleVars ErrorCount ''5''))
     = Some (ErrReadOnly [ErrorCount])"
  "snd (fst (ValidateSetSystemVar exampleSysVars exampleVars DefaultWeekFormat ''abc''))
     = Some (ErrWrongTypeForVar [DefaultWeekFormat])"
  "snd (fst (ValidateSetSystemVar exampleSysVars exampleVars DelayKeyWrite ''7''))
     = Some (ErrWrongValueForVar [DelayKeyWrite, ''7''])"
  by (simp_all add: ValidateSetSystemVar_ErrorCount ValidateSetSystemVar_DefaultWeekFormat
      ValidateSetSystemVar_DelayKeyWrite EqualFold_DEFAULT EqualFold_ON EqualFold_OFF
      EqualFold_ALL upper_eval Atoi_eval)

theorem SetSessionSystemVar_error_keeps_session_witness:
  "exampleSysVars (ToLower ''no_such_variable'') = None
   \<and> SetSessionSystemVar exampleSysVars exampleVars ''no_such_variable'' (stringDatum ''1'')
       = (Some (UnknownSystemVar []), exampleVars)
   \<and> exampleSysVars (ToLower ''Error_Count'')
       = Some \<lparr>Scope = ScopeSession, Name = ErrorCount, Value = ''0''\<rparr>
   \<and> SetSessionSystemVar exampleSysVars exampleVars ''Error_Count''
        \<lparr>IsNull = False, ToString = ('''', Some (ErrOther ''cannot convert to string''))\<rparr>
       = (Some (ErrOther ''cannot convert to string''), exampleVars)
   \<and> SetSessionSystemVar exampleSysVars exampleVars ''Error_Count'' (stringDatum ''5'')
       = (Some (ErrReadOnly [ErrorCount]), exampleVars)
   \<and> exampleSysVars (ToLower DefaultWeekFormat)
       = Some \<lparr>Scope = ScopeGlobal OR ScopeSession, Name = DefaultWeekFormat, Value = ''0''\<rparr>
   \<and> SetSessionSystemVar exampleSysVars exampleVars DefaultWeekFormat (stringDatum ''abc'')
       = (Some (ErrWrongTypeForVar [DefaultWeekFormat]), exampleVars)
   \<and> exampleSysVars (ToLower DelayKeyWrite)
       = Some \<lparr>Scope = ScopeGlobal, Name = DelayKeyWrite, Value = ''ON''\<rparr>
   \<and> SetSessionSystemVar exampleSysVars exampleVars DelayKeyWrite (stringDatum ''7'')
       = (Some (ErrWrongValueForVar [DelayKeyWrite, ''7'']), exampleVars)"
  using
    SetSessionSystemVar_error_keeps_session
      [of exampleSysVars "''no_such_variable''" exampleVars "stringDatum ''1''"]
    SetSessionSystemVar_error_keeps_session
      [of exampleSysVars "''Error_Count''" exampleVars
          "\<lparr>IsNull = False, ToString = ('''', Some (ErrOther ''cannot convert to string''))\<rparr>"
          "\<lparr>Scope = ScopeSession, Name = ErrorCount, Value = ''0''\<rparr>"
          "ErrOther ''cannot convert to string''"]
    SetSessionSystemVar_error_keeps_session
      [of exampleSysVars "''Error_Count''" exampleVars "stringDatum ''5''"
          "\<lparr>Scope = ScopeSession, Name = ErrorCount, Value = ''0''\<rparr>"
          "ErrReadOnly [ErrorCount]"]
    SetSessionSystemVar_error_keeps_session
      [of exampleSysVars DefaultWeekFormat exampleVars "stringDatum ''abc''"
          "\<lparr>Scope = ScopeGlobal OR ScopeSession, Name = DefaultWeekFormat, Value = ''0''\<rparr>"
          "ErrWrongTypeForVar [DefaultWeekFormat]"]
    SetSessionSystemVar_error_keeps_session
      [of exampleSysVars DelayKeyWrite exampleVars "stringDatum ''7''"
          "\<lparr>Scope = ScopeGlobal, Name = DelayKeyWrite, Value = ''ON''\<rparr>"
          "ErrWrongValueForVar [DelayKeyWrite, ''7'']"]
  by (simp add: ToLower_eval ex_lookup stringDatum_def ValidateSetSystemVar_errors_eval)

subsection \<open>Setting a variable to null\<close>

lemma GetSessionSystemVar_absent:
  assumes "SysVars (ToLower name) = Some sysVar" and "systems s (ToLower name) = None"
  shows "GetSessionSystemVar SysVars p s name =
     (if Name sysVar = TiDBCurrentTS then ((FormatUint (unat (StartTS (TxnCtx s))), None), s)
      else if Name sysVar = TiDBGeneralLog then
        ((FormatUint (unat (ProcessGeneralLog p)), None), s)
      else if Name sysVar = TiDBConfig then
        (case GlobalConfigJSON p of
           (j, Some err) \<Rightarrow> (('''', Some err), s)
         | (j, None) \<Rightarrow> ((j, None), s))
      else if Scope sysVar AND ScopeGlobal = 0 then ((Value sysVar, None), s)
      else
        (case GlobalVarsAccessor s (ToLower name) of
           (gVal, Some err) \<Rightarrow> (('''', Some err), s)
         | (gVal, None) \<Rightarrow>
             ((gVal, None), s\<lparr>systems := (systems s)(ToLower name \<mapsto> gVal)\<rparr>)))"
  using assms
  by (simp add: GetSessionSystemVar_def GetSessionOnlySysVars_def Let_def
      split: prod.split option.split)

lemma SetSessionSystemVar_null:
  assumes "SysVars (ToLower name) = Some sysVar" and "IsNull value"
  shows "SetSessionSystemVar SysVars vars name value
           = (None, vars\<lparr>systems := (systems vars)(ToLower name := None)\<rparr>)"
  using assms by (simp add: SetSessionSystemVar_def deleteSystemVar_def)

text \<open>
  Claim C6, as the source has it. For a name whose lower-case form is in the catalog,
  \<open>SetSessionSystemVar\<close> with a null datum returns no error and changes the session in
  one place only: the overlay loses its entry for the lower-case name (so no warning is
  added, no other entry and nothing of the global store is touched). A
  \<open>GetSessionSystemVar\<close> for the name on that session does not find an overlay entry: it
  returns the computed value for the three virtual variables (the rendering of the
  configuration may fail), the default of the catalog when the scope has no global bit,
  and otherwise what the accessor of the global store answers for the name, that is the
  value, then written into the overlay, or the error of the accessor.
\<close>

theorem SetSessionSystemVar_null_then_get:
  assumes "SysVars (ToLower name) = Some sysVar" and "IsNull value"
  shows "SetSessionSystemVar SysVars vars name value
           = (None, vars\<lparr>systems := (systems vars)(ToLower name := None)\<rparr>)
    \<and> GetSessionSystemVar SysVars p
         (vars\<lparr>systems := (systems vars)(ToLower name := None)\<rparr>) name =
     (if Name sysVar = TiDBCurrentTS then
        ((FormatUint (unat (StartTS (TxnCtx vars))), None),
         vars\<lparr>systems := (systems vars)(ToLower name := None)\<rparr>)
      else if Name sysVar = TiDBGeneralLog then
        ((FormatUint (unat (ProcessGeneralLog p)), None),
         vars\<lparr>systems := (systems vars)(ToLower name := None)\<rparr>)
      else if Name sysVar = TiDBConfig then
        (case GlobalConfigJSON p of
           (j, Some err) \<Rightarrow>
             (('''', Some err), vars\<lparr>systems := (systems vars)(ToLower name := None)\<rparr>)
         | (j, None) \<Rightarrow>
             ((j, None), vars\<lparr>systems := (systems vars)(ToLower name := None)\<rparr>))
      else if Scope sysVar AND ScopeGlobal = 0 then
        ((Value sysVar, None), vars\<lparr>systems := (systems vars)(ToLower name := None)\<rparr>)
      else
        (case GlobalVarsAccessor vars (ToLower name) of
           (gVal, Some err) \<Rightarrow>
             (('''', Some err), vars\<lparr>systems := (systems vars)(ToLower name := None)\<rparr>)
         | (gVal, None) \<Rightarrow>
             ((gVal, None), vars\<lparr>systems := (systems vars)(ToLower name \<mapsto> gVal)\<rparr>)))"
proof -
  let ?s = "vars\<lparr>systems := (systems vars)(ToLower name := None)\<rparr>"
  have absent: "systems ?s (ToLower name) = None" by simp
  show ?thesis
    using GetSessionSystemVar_absent [of SysVars name sysVar ?s p] assms(1) absent
      SetSessionSystemVar_null [of SysVars name sysVar "value" vars] assms(2)
    by (simp split: prod.split option.split)
qed

theorem SetSessionSystemVar_null_then_get_witness:
  "exampleSysVars (ToLower ''AutoCommit'')
      = Some \<lparr>Scope = ScopeGlobal OR ScopeSession, Name = AutocommitVar, Value = ''1''\<rparr>
   \<and> IsNull nullDatum
   \<and> systems exampleVars AutocommitVar = Some ''0''
   \<and> SetSessionSystemVar exampleSysVars exampleVars ''AutoCommit'' nullDatum
       = (None, exampleVars\<lparr>systems := (systems exampleVars)(AutocommitVar := None)\<rparr>)
   \<and> GetSessionSystemVar exampleSysVars exampleProcess
         (exampleVars\<lparr>systems := (systems exampleVars)(AutocommitVar := None)\<rparr>) ''AutoCommit''
       = ((''1'', None),
          exampleVars\<lparr>systems := (systems exampleVars)(AutocommitVar \<mapsto> ''1'')\<rparr>)"
proof -
  have h1: "exampleSysVars (ToLower ''AutoCommit'')
      = Some \<lparr>Scope = ScopeGlobal OR ScopeSession, Name = AutocommitVar, Value = ''1''\<rparr>"
    by (simp only: ToLower_eval ex_lookup)
  have h2: "IsNull nullDatum" by (simp add: nullDatum_def)
  from SetSessionSystemVar_null_then_get
         [of exampleSysVars "''AutoCommit''" _ nullDatum exampleVars exampleProcess, OF h1 h2]
       h1 h2
  show ?thesis
    by (simp only: ToLower_eval ex_vars ex_acc names_ne scope_bits SysVar.simps
        if_False prod.case option.case simp_thms)
qed

text \<open>
  The later read can fail. The sample global store has no \<open>max_connections\<close>: after the
  variable, of global scope, was set to null in the session, reading it returns the error
  of the accessor.
\<close>

theorem SetSessionSystemVar_null_then_get_counterexample:
  "SetSessionSystemVar exampleSysVars exampleVars MaxConnections nullDatum
       = (None, exampleVars\<lparr>systems := (systems exampleVars)(MaxConnections := None)\<rparr>)
   \<and> GetSessionSystemVar exampleSysVars exampleProcess
         (exampleVars\<lparr>systems := (systems exampleVars)(MaxConnections := None)\<rparr>)
         MaxConnections
       = (('''', Some (UnknownSystemVar [MaxConnections])),
          exampleVars\<lparr>systems := (systems exampleVars)(MaxConnections := None)\<rparr>)"
proof -
  let ?s = "exampleVars\<lparr>systems := (systems exampleVars)(MaxConnections := None)\<rparr>"
  have h1: "exampleSysVars (ToLower MaxConnections)
      = Some \<lparr>Scope = ScopeGlobal, Name = MaxConnections, Value = ''151''\<rparr>"
    by (simp only: ToLower_eval ex_lookup)
  have h2: "IsNull nullDatum" by (simp add: nullDatum_def)
  have h3: "systems ?s (ToLower MaxConnections) = None"
    by (simp add: ToLower_eval)
  have acc: "GlobalVarsAccessor ?s = exampleAccessor"
    by (simp add: ex_vars)
  from SetSessionSystemVar_null [of exampleSysVars MaxConnections _ nullDatum, OF h1 h2]
    GetSessionSystemVar_absent [of exampleSysVars MaxConnections _ ?s exampleProcess, OF h1 h3]
  show ?thesis
    by (simp only: ToLower_eval acc ex_acc names_ne scope_bits SysVar.simps
        if_False prod.case option.case simp_thms)
qed

subsection \<open>Timestamps\<close>

lemma sdiv_Millisecond:
  "(a :: int) sdiv 1000000 = (if 0 \<le> a then a div 1000000 else - ((- a) div 1000000))"
  by (auto simp add: signed_divide_int_def sgn_if)

lemma sint_Millisecond: "sint Millisecond = 1000000"
  by (simp add: Millisecond_def)

lemma GoTimeToTS_word_of_int:
  "GoTimeToTS t = word_of_int ((sint t sdiv 1000000) * 2 ^ 18)"
  by (simp add: GoTimeToTS_def int64_div_def sint_Millisecond epochShiftBits_def
      push_bit_eq_mult)

text \<open>The millisecond count of an \<^verbatim>\<open>int64\<close> of nanoseconds has fewer than 44 bits.\<close>

lemma milliseconds_bounds:
  fixes t :: "64 word"
  shows "- 9223372036855 \<le> sint t sdiv 1000000" and "sint t sdiv 1000000 \<le> 9223372036855"
proof -
  have lo: "- (2 ^ 63) \<le> sint t" using sint_ge [of t] by simp
  have hi: "sint t < 2 ^ 63" using sint_lt [of t] by simp
  show "- 9223372036855 \<le> sint t sdiv 1000000"
    using lo hi by (simp add: sdiv_Millisecond) linarith
  show "sint t sdiv 1000000 \<le> 9223372036855"
    using lo hi by (simp add: sdiv_Millisecond) linarith
qed

text \<open>
  The shift does not overflow; the conversion to \<^verbatim>\<open>uint64\<close> sends a negative count to
  the top of the range.
\<close>

lemma uint_GoTimeToTS:
  "uint (GoTimeToTS t) =
     (if 0 \<le> sint t sdiv 1000000 then (sint t sdiv 1000000) * 2 ^ 18
      else 2 ^ 64 + (sint t sdiv 1000000) * 2 ^ 18)"
proof -
  let ?q = "sint t sdiv 1000000"
  have b: "- 9223372036855 \<le> ?q" "?q \<le> 9223372036855" by (rule milliseconds_bounds)+
  have u: "uint (GoTimeToTS t) = (?q * 2 ^ 18) mod 2 ^ 64"
    by (simp only: GoTimeToTS_word_of_int uint_word_of_int) simp
  show ?thesis
  proof (cases "0 \<le> ?q")
    case True
    with b have "0 \<le> ?q * 2 ^ 18" "?q * 2 ^ 18 < 2 ^ 64" by simp_all
    then have "(?q * 2 ^ 18) mod 2 ^ 64 = ?q * 2 ^ 18" by (rule mod_pos_pos_trivial)
    with u True show ?thesis by simp
  next
    case False
    with b have "0 \<le> 2 ^ 64 + ?q * 2 ^ 18" "2 ^ 64 + ?q * 2 ^ 18 < 2 ^ 64" by simp_all
    then have "(2 ^ 64 + ?q * 2 ^ 18) mod 2 ^ 64 = 2 ^ 64 + ?q * 2 ^ 18"
      by (rule mod_pos_pos_trivial)
    moreover have "(2 ^ 64 + ?q * 2 ^ 18) mod 2 ^ 64 = (?q * 2 ^ 18) mod (2 ^ 64 :: int)"
      by simp
    ultimately show ?thesis using u False by simp
  qed
qed

lemma sdiv_Millisecond_mono:
  assumes "(a :: int) \<le> b"
  shows "a sdiv 1000000 \<le> b sdiv 1000000"
proof -
  consider "0 \<le> a" | "a < 0" "0 \<le> b" | "b < 0" using assms by linarith
  then show ?thesis
  proof cases
    case 1
    with assms have "a div 1000000 \<le> b div 1000000" by (intro zdiv_mono1) simp_all
    with 1 assms show ?thesis by (simp add: sdiv_Millisecond)
  next
    case 2
    then have "0 \<le> (- a) div 1000000" "0 \<le> b div 1000000"
      by (simp_all add: pos_imp_zdiv_nonneg_iff)
    with 2 show ?thesis by (simp add: sdiv_Millisecond)
  next
    case 3
    with assms have "(- b) div 1000000 \<le> (- a) div 1000000" by (intro zdiv_mono1) simp_all
    with 3 assms show ?thesis by (simp add: sdiv_Millisecond)
  qed
qed

lemma sdiv_Millisecond_neg: "((a :: int) sdiv 1000000 < 0) = (a \<le> - 1000000)"
proof (cases "0 \<le> a")
  case True
  then have "0 \<le> a div 1000000" by (simp add: pos_imp_zdiv_nonneg_iff)
  with True show ?thesis by (simp add: sdiv_Millisecond)
next
  case False
  have "(0 < (- a) div 1000000) = (1000000 \<le> - a)"
    by (simp add: pos_imp_zdiv_pos_iff)
  with False show ?thesis by (simp add: sdiv_Millisecond) linarith
qed

lemma GoTimeToTS_eval:
  "GoTimeToTS 0 = 0"
  "GoTimeToTS (- 1000000) = 18446744073709289472"
  by (simp_all add: GoTimeToTS_word_of_int sdiv_Millisecond)

text \<open>
  Claim C4, as the source has it. The argument is the \<^verbatim>\<open>int64\<close> of nanoseconds that
  \<^verbatim>\<open>UnixNano\<close> gives for the time. For every time the low \<open>epochShiftBits\<close> (18) bits of
  \<open>GoTimeToTS\<close> are zero. For two times \<open>t1 < t2\<close>, \<open>GoTimeToTS t1 \<le> GoTimeToTS t2\<close> as
  \<^verbatim>\<open>uint64\<close> holds exactly when \<open>t1\<close> is later than one millisecond before the Unix
  epoch or \<open>t2\<close> is at least one millisecond before it; in particular for all times at
  or after the epoch.
\<close>

theorem GoTimeToTS_low_bits_and_order:
  "take_bit epochShiftBits (GoTimeToTS t) = 0
   \<and> (sint t1 < sint t2 \<longrightarrow>
        (GoTimeToTS t1 \<le> GoTimeToTS t2) = (- 1000000 < sint t1 \<or> sint t2 \<le> - 1000000))"
proof (intro conjI impI)
  show "take_bit epochShiftBits (GoTimeToTS t) = 0"
    by (simp add: GoTimeToTS_def take_bit_push_bit)
next
  let ?q1 = "sint t1 sdiv 1000000" and ?q2 = "sint t2 sdiv 1000000"
  assume h: "sint t1 < sint t2"
  then have q: "?q1 \<le> ?q2" by (simp add: sdiv_Millisecond_mono)
  have b: "- 9223372036855 \<le> ?q1" "?q2 \<le> 9223372036855" by (rule milliseconds_bounds)+
  have n1: "(?q1 < 0) = (sint t1 \<le> - 1000000)"
    and n2: "(?q2 < 0) = (sint t2 \<le> - 1000000)"
    by (rule sdiv_Millisecond_neg)+
  show "(GoTimeToTS t1 \<le> GoTimeToTS t2) = (- 1000000 < sint t1 \<or> sint t2 \<le> - 1000000)"
  proof (cases "?q1 < 0")
    case False
    with q n1 show ?thesis by (simp add: word_le_def uint_GoTimeToTS)
  next
    case q1: True
    show ?thesis
    proof (cases "?q2 < 0")
      case True
      with q q1 n2 show ?thesis by (simp add: word_le_def uint_GoTimeToTS)
    next
      case False
      with q1 b n1 n2 show ?thesis by (simp add: word_le_def uint_GoTimeToTS)
    qed
  qed
qed

theorem GoTimeToTS_low_bits_and_order_witness:
  "sint (1000000 :: 64 word) < sint (2000000 :: 64 word)
   \<and> - 1000000 < sint (1000000 :: 64 word)
   \<and> take_bit epochShiftBits (GoTimeToTS 1000000) = 0
   \<and> GoTimeToTS 1000000 \<le> GoTimeToTS 2000000"
  using GoTimeToTS_low_bits_and_order [of 1000000 1000000 2000000] by simp

text \<open>
  Across the epoch the order is lost: one millisecond before 1970 comes before the epoch,
  and its timestamp is the larger \<^verbatim>\<open>uint64\<close>.
\<close>

theorem GoTimeToTS_order_counterexample:
  "sint (- 1000000 :: 64 word) < sint (0 :: 64 word)
   \<and> GoTimeToTS 0 = 0
   \<and> GoTimeToTS (- 1000000) = 18446744073709289472
   \<and> GoTimeToTS 0 < GoTimeToTS (- 1000000)"
  by (simp add: GoTimeToTS_eval word_gt_0)

end
